theory Spec2Isabelle
  imports Complex_Main "HOL-Library.AList"
begin

section \<open>JavaScript values\<close>

text \<open>
  The values the accessor handles are the \<^verbatim>\<open>any\<close> of \<^verbatim>\<open>StorageProps.value\<close> and what
  \<^verbatim>\<open>JSON.parse\<close> returns. \<open>JUndefined\<close> is the value of an absent parameter or field.
  \<open>JNum\<close> carries a finite number (no arithmetic is done on it; \<open>0\<close> stands for both
  zeros). \<open>JStr\<close> is a string, one \<open>char\<close> for each code unit. \<open>JArr\<close> lists the
  elements of an array, a hole being a \<open>JUndefined\<close> element. \<open>JObj\<close> lists the own
  properties of a plain object in the order in which the language enumerates them.
  \<open>JHost\<close> is an object or function that the host supplies (what a prototype chain
  yields, for instance); it is no JSON data and its fields are opaque here.
\<close>

datatype jsval =
    JUndefined
  | JNull
  | JBool bool
  | JNum rat
  | JStr string
  | JArr "jsval list"
  | JObj "(string \<times> jsval) list"
  | JHost string

text \<open>Truthiness, as \<^verbatim>\<open>!x\<close>, \<^verbatim>\<open>x ? a : b\<close> and \<^verbatim>\<open>x || y\<close> test it.\<close>

fun truthy :: "jsval \<Rightarrow> bool" where
  "truthy JUndefined = False"
| "truthy JNull = False"
| "truthy (JBool b) = b"
| "truthy (JNum n) = (n \<noteq> 0)"
| "truthy (JStr s) = (s \<noteq> [])"
| "truthy (JArr xs) = True"
| "truthy (JObj ps) = True"
| "truthy (JHost l) = True"

text \<open>What the code can throw.  \<open>Error\<close> carries its message.\<close>

datatype error = Error string | SyntaxError | TypeError | RangeError

section \<open>The host: JSON codec, prototype chains, number conversion\<close>

text \<open>
  \<^verbatim>\<open>JSON.parse\<close> and \<^verbatim>\<open>JSON.stringify\<close> belong to the host, not to this package, and
  are taken as parameters: \<open>JSON_parse h t = None\<close> when the text is malformed (a
  SyntaxError), \<open>JSON_stringify h v = None\<close> when the result is \<^verbatim>\<open>undefined\<close>.
  \<open>proto h v k\<close> is what the prototype chain of \<open>v\<close> holds under the key \<open>k\<close>, for a key
  that is no own property of \<open>v\<close>.  \<open>ToNumber h v\<close> is the finite number that \<open>v\<close>
  converts to, if any; only an assignment to the \<^verbatim>\<open>length\<close> of an array reads it.
\<close>

record host =
  JSON_parse :: "string \<Rightarrow> jsval option"
  JSON_stringify :: "jsval \<Rightarrow> string option"
  proto :: "jsval \<Rightarrow> string \<Rightarrow> jsval option"
  ToNumber :: "jsval \<Rightarrow> rat option"

section \<open>Property access\<close>

text \<open>
  An array index is a canonical decimal numeral below \<open>2^32 - 1\<close>.  Arrays and strings
  have such keys, and objects enumerate them first, in ascending order.
\<close>

definition is_digit :: "char \<Rightarrow> bool" where
  "is_digit c = (c \<in> set ''0123456789'')"

definition decimal :: "string \<Rightarrow> int" where
  "decimal s = foldl (\<lambda>n c. 10 * n + (of_char c - 48)) 0 s"

definition array_index :: "string \<Rightarrow> nat option" where
  "array_index k =
     (if k \<noteq> [] \<and> list_all is_digit k \<and> (length k = 1 \<or> hd k \<noteq> CHR ''0'')
         \<and> decimal k < 4294967295
      then Some (nat (decimal k)) else None)"

text \<open>The own property of a value under a key.\<close>

fun own_prop :: "jsval \<Rightarrow> string \<Rightarrow> jsval option" where
  "own_prop (JObj ps) k = map_of ps k"
| "own_prop (JArr xs) k =
     (if k = ''length'' then Some (JNum (of_nat (length xs)))
      else case array_index k of
             Some i \<Rightarrow> if i < length xs then Some (xs ! i) else None
           | None \<Rightarrow> None)"
| "own_prop (JStr s) k =
     (if k = ''length'' then Some (JNum (of_nat (length s)))
      else case array_index k of
             Some i \<Rightarrow> if i < length s then Some (JStr [s ! i]) else None
           | None \<Rightarrow> None)"
| "own_prop v k = None"

text \<open>
  \<^verbatim>\<open>storedData[item]\<close> as an expression: a TypeError on \<^verbatim>\<open>null\<close> and \<^verbatim>\<open>undefined\<close>,
  the own property when there is one, else what the prototype chain holds, else
  \<^verbatim>\<open>undefined\<close>.
\<close>

definition get_prop :: "host \<Rightarrow> jsval \<Rightarrow> string \<Rightarrow> error + jsval" where
  "get_prop h v k =
     (if v = JUndefined \<or> v = JNull then Inl TypeError
      else case own_prop v k of
             Some x \<Rightarrow> Inr x
           | None \<Rightarrow> (case proto h v k of Some x \<Rightarrow> Inr x | None \<Rightarrow> Inr JUndefined))"

text \<open>A new own property of an object: an array index goes among the leading
  index keys, in ascending order; any other key goes last.\<close>

fun insert_index :: "nat \<Rightarrow> string \<Rightarrow> jsval \<Rightarrow> (string \<times> jsval) list \<Rightarrow> (string \<times> jsval) list" where
  "insert_index i k x [] = [(k, x)]"
| "insert_index i k x (p # ps) =
     (case array_index (fst p) of
        Some j \<Rightarrow> if j < i then p # insert_index i k x ps else (k, x) # p # ps
      | None \<Rightarrow> (k, x) # p # ps)"

definition obj_set :: "string \<Rightarrow> jsval \<Rightarrow> (string \<times> jsval) list \<Rightarrow> (string \<times> jsval) list" where
  "obj_set k x ps =
     (case array_index k of
        Some i \<Rightarrow> if map_of ps k = None then insert_index i k x ps else AList.update k x ps
      | None \<Rightarrow> AList.update k x ps)"

text \<open>The length an array is given by \<^verbatim>\<open>arr.length = x\<close>, when \<open>x\<close> converts to one.\<close>

definition array_length :: "host \<Rightarrow> jsval \<Rightarrow> nat option" where
  "array_length h x =
     (case ToNumber h x of
        None \<Rightarrow> None
      | Some q \<Rightarrow> if of_int \<lfloor>q\<rfloor> = q \<and> 0 \<le> q \<and> q < 2 ^ 32 then Some (nat \<lfloor>q\<rfloor>) else None)"

text \<open>
  \<^verbatim>\<open>storedData[item] = value\<close>.  Both source files are ES modules (they end in
  \<^verbatim>\<open>export default\<close>), and module code is strict mode code: an assignment to a
  property of a primitive value throws a TypeError instead of being dropped.  The key
  \<^verbatim>\<open>__proto__\<close> is the one inherited accessor with a setter: unless the object has an
  own property of that name, assigning to it creates none, and on a primitive the
  setter returns without an error.  On an array a key that is neither an index nor
  \<^verbatim>\<open>length\<close> makes a property that is no element of the array; the code only passes
  the array to \<^verbatim>\<open>JSON.stringify\<close> afterwards, which writes the elements alone.
\<close>

fun set_prop :: "host \<Rightarrow> jsval \<Rightarrow> string \<Rightarrow> jsval \<Rightarrow> error + jsval" where
  "set_prop h JUndefined k x = Inl TypeError"
| "set_prop h JNull k x = Inl TypeError"
| "set_prop h (JObj ps) k x =
     (if k = ''__proto__'' \<and> map_of ps k = None then Inr (JObj ps)
      else Inr (JObj (obj_set k x ps)))"
| "set_prop h (JArr xs) k x =
     (if k = ''length'' then
        (case array_length h x of
           None \<Rightarrow> Inl RangeError
         | Some n \<Rightarrow> Inr (JArr (take n xs @ replicate (n - length xs) JUndefined)))
      else case array_index k of
             Some i \<Rightarrow>
               Inr (JArr (if i < length xs then xs[i := x]
                          else xs @ replicate (i - length xs) JUndefined @ [x]))
           | None \<Rightarrow> Inr (JArr xs))"
| "set_prop h (JHost l) k x = Inr (JHost l)"
| "set_prop h v k x = (if k = ''__proto__'' then Inr v else Inl TypeError)"

text \<open>
  \<^verbatim>\<open>delete storedData[item]\<close>, in strict mode: a TypeError on \<^verbatim>\<open>null\<close> and
  \<^verbatim>\<open>undefined\<close> and on a property that cannot be deleted (the \<^verbatim>\<open>length\<close> of an array
  or a string, a character of a string); deleting an element of an array leaves a
  hole; deleting what is no own property does nothing.
\<close>

fun delete_prop :: "jsval \<Rightarrow> string \<Rightarrow> error + jsval" where
  "delete_prop JUndefined k = Inl TypeError"
| "delete_prop JNull k = Inl TypeError"
| "delete_prop (JObj ps) k = Inr (JObj (AList.delete k ps))"
| "delete_prop (JArr xs) k =
     (if k = ''length'' then Inl TypeError
      else case array_index k of
             Some i \<Rightarrow> Inr (JArr (if i < length xs then xs[i := JUndefined] else xs))
           | None \<Rightarrow> Inr (JArr xs))"
| "delete_prop (JStr s) k =
     (if k = ''length'' then Inl TypeError
      else case array_index k of
             Some i \<Rightarrow> if i < length s then Inl TypeError else Inr (JStr s)
           | None \<Rightarrow> Inr (JStr s))"
| "delete_prop v k = Inr v"

section \<open>The two storage areas of the window\<close>

text \<open>
  A \<^verbatim>\<open>Storage\<close> object maps names to texts.  \<^verbatim>\<open>window\<close> holds the two of them; the
  code picks one by \<^verbatim>\<open>window[type + 'Storage']\<close>, which is \<^verbatim>\<open>undefined\<close> when \<open>type\<close> is
  absent.  A \<open>StorageType\<close> value also stands for the \<^verbatim>\<open>Storage\<close> object it selects:
  the operations below take it as the receiver and return the window with that
  object updated.  Quota and availability failures of the host are not modelled.
\<close>

datatype StorageType = local | session

type_synonym Storage = "string \<rightharpoonup> string"

record window =
  localStorage :: Storage
  sessionStorage :: Storage

fun storage_of :: "window \<Rightarrow> StorageType \<Rightarrow> Storage" where
  "storage_of w local = localStorage w"
| "storage_of w session = sessionStorage w"

fun put_storage :: "StorageType \<Rightarrow> Storage \<Rightarrow> window \<Rightarrow> window" where
  "put_storage local s w = w\<lparr>localStorage := s\<rparr>"
| "put_storage session s w = w\<lparr>sessionStorage := s\<rparr>"

definition getItem :: "window \<Rightarrow> StorageType \<Rightarrow> string \<Rightarrow> string option" where
  "getItem w storage key = storage_of w storage key"

definition setItem :: "StorageType \<Rightarrow> string \<Rightarrow> string \<Rightarrow> window \<Rightarrow> window" where
  "setItem storage key text w = put_storage storage ((storage_of w storage)(key \<mapsto> text)) w"

definition removeItem :: "StorageType \<Rightarrow> string \<Rightarrow> window \<Rightarrow> window" where
  "removeItem storage key w = put_storage storage ((storage_of w storage)(key := None)) w"

definition Storage_clear :: "StorageType \<Rightarrow> window \<Rightarrow> window" where
  "Storage_clear storage w = put_storage storage Map.empty w"

section \<open>The request\<close>

text \<open>
  \<^verbatim>\<open>StorageProps\<close>, with the types of \<^verbatim>\<open>index.ts\<close>.  A field that the caller leaves
  out is \<open>None\<close> (\<open>JUndefined\<close> for \<open>value\<close>): \<open>ensureParams\<close> exists because \<open>type\<close>
  and \<open>name\<close> can be missing when the call is made.
\<close>

record StorageProps =
  type :: "StorageType option"
  name :: "string option"
  item :: "string option"
  "value" :: jsval

text \<open>A string parameter as a value, and as the key it is converted to when it is
  used as one (\<^verbatim>\<open>undefined\<close> becomes the key \<^verbatim>\<open>"undefined"\<close>).\<close>

fun str_val :: "string option \<Rightarrow> jsval" where
  "str_val None = JUndefined"
| "str_val (Some s) = JStr s"

fun to_key :: "string option \<Rightarrow> string" where
  "to_key None = ''undefined''"
| "to_key (Some s) = s"

fun type_val :: "StorageType option \<Rightarrow> jsval" where
  "type_val None = JUndefined"
| "type_val (Some local) = JStr ''local''"
| "type_val (Some session) = JStr ''session''"

text \<open>\<^verbatim>\<open>props[param]\<close>, for the parameter names the code passes.\<close>

definition props_at :: "StorageProps \<Rightarrow> string \<Rightarrow> jsval" where
  "props_at props param =
     (if param = ''type'' then type_val (type props)
      else if param = ''name'' then str_val (name props)
      else if param = ''item'' then str_val (item props)
      else if param = ''value'' then value props
      else JUndefined)"

text \<open>The message prefix of \<open>ensureParams\<close>, in UTF-8; it reads "missing parameter: ".\<close>

definition missing_prefix :: string where
  "missing_prefix =
     [CHR 0xE7, CHR 0xBC, CHR 0xBA, CHR 0xE5, CHR 0xB0, CHR 0x91, CHR 0xE5, CHR 0x8F, CHR 0x82,
      CHR 0xE6, CHR 0x95, CHR 0xB0, CHR '':'', CHR '' '']"

fun ensureParams :: "string list \<Rightarrow> StorageProps \<Rightarrow> error + unit" where
  "ensureParams [] props = Inr ()"
| "ensureParams (param # requiredParams) props =
     (if \<not> truthy (props_at props param) then Inl (Error (missing_prefix @ param))
      else ensureParams requiredParams props)"

section \<open>The accessor\<close>

text \<open>\<^verbatim>\<open>storage.getItem(name) || '{}'\<close>: the default replaces an absent entry and an
  empty text.\<close>

fun or_default :: "string option \<Rightarrow> string" where
  "or_default None = ''{}''"
| "or_default (Some t) = (if t = [] then ''{}'' else t)"

definition parse :: "host \<Rightarrow> string \<Rightarrow> error + jsval" where
  "parse h t = (case JSON_parse h t of None \<Rightarrow> Inl SyntaxError | Some v \<Rightarrow> Inr v)"

text \<open>The text \<^verbatim>\<open>setItem\<close> receives: \<^verbatim>\<open>undefined\<close> is converted to a string.\<close>

definition stringify :: "host \<Rightarrow> jsval \<Rightarrow> string" where
  "stringify h v = (case JSON_stringify h v of None \<Rightarrow> ''undefined'' | Some t \<Rightarrow> t)"

text \<open>
  Every operation returns its result or the error it throws, and the window as it
  is then: what was written before a throw stays written.
\<close>

definition get :: "host \<Rightarrow> StorageProps \<Rightarrow> window \<Rightarrow> (error + jsval) \<times> window" where
  "get h props w =
     (case ensureParams [''type'', ''name'']
             \<lparr>type = type props, name = name props, item = None, value = JUndefined\<rparr> of
        Inl e \<Rightarrow> (Inl e, w)
      | Inr u \<Rightarrow>
          (case type props of
             None \<Rightarrow> (Inl TypeError, w)
           | Some storage \<Rightarrow>
               (case parse h (or_default (getItem w storage (to_key (name props)))) of
                  Inl e \<Rightarrow> (Inl e, w)
                | Inr storedData \<Rightarrow>
                    (if truthy (str_val (item props))
                     then (get_prop h storedData (to_key (item props)), w)
                     else (Inr storedData, w)))))"

definition set' :: "host \<Rightarrow> StorageProps \<Rightarrow> window \<Rightarrow> (error + unit) \<times> window" where
  "set' h props w =
     (case ensureParams [''type'', ''name'', ''value'']
             \<lparr>type = type props, name = name props, item = None, value = value props\<rparr> of
        Inl e \<Rightarrow> (Inl e, w)
      | Inr u \<Rightarrow>
          (case type props of
             None \<Rightarrow> (Inl TypeError, w)
           | Some storage \<Rightarrow>
               (case parse h (or_default (getItem w storage (to_key (name props)))) of
                  Inl e \<Rightarrow> (Inl e, w)
                | Inr storedData \<Rightarrow>
                    (case (if truthy (str_val (item props))
                           then set_prop h storedData (to_key (item props)) (value props)
                           else Inr (value props)) of
                       Inl e \<Rightarrow> (Inl e, w)
                     | Inr storedData' \<Rightarrow>
                         (Inr (), setItem storage (to_key (name props))
                                    (stringify h storedData') w)))))"

definition remove :: "host \<Rightarrow> StorageProps \<Rightarrow> window \<Rightarrow> (error + unit) \<times> window" where
  "remove h props w =
     (case ensureParams [''type'', ''name'']
             \<lparr>type = type props, name = name props, item = None, value = JUndefined\<rparr> of
        Inl e \<Rightarrow> (Inl e, w)
      | Inr u \<Rightarrow>
          (case type props of
             None \<Rightarrow> (Inl TypeError, w)
           | Some storage \<Rightarrow>
               (if truthy (str_val (item props)) then
                  (case parse h (or_default (getItem w storage (to_key (name props)))) of
                     Inl e \<Rightarrow> (Inl e, w)
                   | Inr storedData \<Rightarrow>
                       (case delete_prop storedData (to_key (item props)) of
                          Inl e \<Rightarrow> (Inl e, w)
                        | Inr storedData' \<Rightarrow>
                            (Inr (), setItem storage (to_key (name props))
                                       (stringify h storedData') w)))
                else (Inr (), removeItem storage (to_key (name props)) w))))"

definition clear :: "StorageProps \<Rightarrow> window \<Rightarrow> (error + unit) \<times> window" where
  "clear props w =
     (case ensureParams [''type'']
             \<lparr>type = type props, name = None, item = None, value = JUndefined\<rparr> of
        Inl e \<Rightarrow> (Inl e, w)
      | Inr u \<Rightarrow>
          (case type props of
             None \<Rightarrow> (Inl TypeError, w)
           | Some storage \<Rightarrow> (Inr (), Storage_clear storage w)))"

section \<open>The bound accessor\<close>

text \<open>
  \<open>chain\<close> checks no parameter.  The object it returns holds four closures over
  \<^verbatim>\<open>storage\<close> (the storage area picked when \<open>chain\<close> ran, \<^verbatim>\<open>undefined\<close> when \<open>type\<close> was
  absent) and \<^verbatim>\<open>name\<close>; the record below is that pair of captured variables.
\<close>

record Chain =
  chain_storage :: "StorageType option"
  chain_name :: "string option"

definition chain :: "StorageProps \<Rightarrow> Chain" where
  "chain props = \<lparr>chain_storage = type props, chain_name = name props\<rparr>"

text \<open>
  What a method returns or is called on: \<^verbatim>\<open>undefined\<close> or a bound accessor.  The
  three mutating methods are arrow functions that return \<^verbatim>\<open>this\<close>.  An arrow
  function has no \<^verbatim>\<open>this\<close> of its own: it reads the one of the code around it, here
  the arrow function \<open>chain\<close>, inside the arrow function that builds \<open>StorageUtil\<close>, at
  the top level of the module, where \<^verbatim>\<open>this\<close> is \<^verbatim>\<open>undefined\<close>.
\<close>

datatype reference = Undefined | Accessor Chain

definition module_this :: reference where
  "module_this = Undefined"

definition chain_get :: "host \<Rightarrow> Chain \<Rightarrow> string option \<Rightarrow> window \<Rightarrow> (error + jsval) \<times> window" where
  "chain_get h c item' w =
     (case chain_storage c of
        None \<Rightarrow> (Inl TypeError, w)
      | Some storage \<Rightarrow>
          (case parse h (or_default (getItem w storage (to_key (chain_name c)))) of
             Inl e \<Rightarrow> (Inl e, w)
           | Inr storedData \<Rightarrow>
               (if truthy (str_val item') then (get_prop h storedData (to_key item'), w)
                else (Inr storedData, w))))"

definition chain_set :: "host \<Rightarrow> Chain \<Rightarrow> string option \<Rightarrow> jsval \<Rightarrow> window \<Rightarrow> (error + reference) \<times> window" where
  "chain_set h c item' v w =
     (case chain_storage c of
        None \<Rightarrow> (Inl TypeError, w)
      | Some storage \<Rightarrow>
          (case parse h (or_default (getItem w storage (to_key (chain_name c)))) of
             Inl e \<Rightarrow> (Inl e, w)
           | Inr storedData \<Rightarrow>
               (case set_prop h storedData (to_key item') v of
                  Inl e \<Rightarrow> (Inl e, w)
                | Inr storedData' \<Rightarrow>
                    (Inr module_this,
                     setItem storage (to_key (chain_name c)) (stringify h storedData') w))))"

definition chain_remove :: "host \<Rightarrow> Chain \<Rightarrow> string option \<Rightarrow> window \<Rightarrow> (error + reference) \<times> window" where
  "chain_remove h c item' w =
     (case chain_storage c of
        None \<Rightarrow> (Inl TypeError, w)
      | Some storage \<Rightarrow>
          (case parse h (or_default (getItem w storage (to_key (chain_name c)))) of
             Inl e \<Rightarrow> (Inl e, w)
           | Inr storedData \<Rightarrow>
               (case delete_prop storedData (to_key item') of
                  Inl e \<Rightarrow> (Inl e, w)
                | Inr storedData' \<Rightarrow>
                    (Inr module_this,
                     setItem storage (to_key (chain_name c)) (stringify h storedData') w))))"

definition chain_clear :: "Chain \<Rightarrow> window \<Rightarrow> (error + reference) \<times> window" where
  "chain_clear c w =
     (case chain_storage c of
        None \<Rightarrow> (Inl TypeError, w)
      | Some storage \<Rightarrow> (Inr module_this, removeItem storage (to_key (chain_name c)) w))"

text \<open>A method call \<^verbatim>\<open>r.set(item, value)\<close>, \<^verbatim>\<open>r.remove(item)\<close>, \<^verbatim>\<open>r.clear()\<close> on what
  an earlier call returned: a TypeError when that is \<^verbatim>\<open>undefined\<close>.\<close>

fun call_set :: "host \<Rightarrow> reference \<Rightarrow> string option \<Rightarrow> jsval \<Rightarrow> window \<Rightarrow> (error + reference) \<times> window" where
  "call_set h Undefined item' v w = (Inl TypeError, w)"
| "call_set h (Accessor c) item' v w = chain_set h c item' v w"

fun call_remove :: "host \<Rightarrow> reference \<Rightarrow> string option \<Rightarrow> window \<Rightarrow> (error + reference) \<times> window" where
  "call_remove h Undefined item' w = (Inl TypeError, w)"
| "call_remove h (Accessor c) item' w = chain_remove h c item' w"

fun call_clear :: "reference \<Rightarrow> window \<Rightarrow> (error + reference) \<times> window" where
  "call_clear Undefined w = (Inl TypeError, w)"
| "call_clear (Accessor c) w = chain_clear c w"

section \<open>A sample host\<close>

text \<open>
  A host to evaluate examples on.  Its codec reads and writes compact JSON text
  (no white space) over integers and strings without escapes; its prototype chains
  hold the properties of \<^verbatim>\<open>Object.prototype\<close>.  The theorems below hold for any host.
\<close>

fun show_nat :: "nat \<Rightarrow> string" where
  "show_nat n =
     (if n < 10 then [''0123456789'' ! n]
      else show_nat (n div 10) @ [''0123456789'' ! (n mod 10)])"

definition show_int :: "int \<Rightarrow> string" where
  "show_int i = (if i < 0 then CHR ''-'' # show_nat (nat (- i)) else show_nat (nat i))"

definition quoted :: "string \<Rightarrow> string" where
  "quoted s = CHR 0x22 # s @ [CHR 0x22]"

fun commas :: "string list \<Rightarrow> string" where
  "commas [] = []"
| "commas [t] = t"
| "commas (t # ts) = t @ CHR '','' # commas ts"

fun sample_stringify :: "jsval \<Rightarrow> string option" where
  "sample_stringify JUndefined = None"
| "sample_stringify (JHost l) = None"
| "sample_stringify JNull = Some ''null''"
| "sample_stringify (JBool b) = Some (if b then ''true'' else ''false'')"
| "sample_stringify (JNum q) = Some (if of_int \<lfloor>q\<rfloor> = q then show_int \<lfloor>q\<rfloor> else ''null'')"
| "sample_stringify (JStr s) = Some (quoted s)"
| "sample_stringify (JArr xs) =
     Some (''['' @ commas (map (\<lambda>x. case sample_stringify x of None \<Rightarrow> ''null'' | Some t \<Rightarrow> t) xs)
           @ '']'')"
| "sample_stringify (JObj ps) =
     Some (''{'' @ commas (concat (map (\<lambda>(k, x). case sample_stringify x of
                                                   None \<Rightarrow> []
                                                 | Some t \<Rightarrow> [quoted k @ CHR '':'' # t]) ps))
           @ ''}'')"

fun string_body :: "string \<Rightarrow> (string \<times> string) option" where
  "string_body [] = None"
| "string_body (c # cs) =
     (if c = CHR 0x22 then Some ([], cs)
      else if c = CHR 0x5C then None
      else case string_body cs of None \<Rightarrow> None | Some (s, r) \<Rightarrow> Some (c # s, r))"

definition number :: "string \<Rightarrow> (int \<times> string) option" where
  "number s =
     (let ds = takeWhile is_digit s in
      if ds \<noteq> [] \<and> (length ds = 1 \<or> hd ds \<noteq> CHR ''0'')
      then Some (decimal ds, dropWhile is_digit s) else None)"

fun parse_value :: "nat \<Rightarrow> string \<Rightarrow> (jsval \<times> string) option"
  and parse_elements :: "nat \<Rightarrow> string \<Rightarrow> (jsval list \<times> string) option"
  and parse_members :: "nat \<Rightarrow> string \<Rightarrow> ((string \<times> jsval) list \<times> string) option" where
  "parse_value 0 s = None"
| "parse_value (Suc n) [] = None"
| "parse_value (Suc n) (c # cs) =
     (if c = CHR ''n'' then (if take 3 cs = ''ull'' then Some (JNull, drop 3 cs) else None)
      else if c = CHR ''t'' then (if take 3 cs = ''rue'' then Some (JBool True, drop 3 cs) else None)
      else if c = CHR ''f'' then (if take 4 cs = ''alse'' then Some (JBool False, drop 4 cs) else None)
      else if c = CHR 0x22 then
        (case string_body cs of None \<Rightarrow> None | Some (s, r) \<Rightarrow> Some (JStr s, r))
      else if c = CHR ''['' then
        (if take 1 cs = '']'' then Some (JArr [], drop 1 cs)
         else case parse_elements n cs of None \<Rightarrow> None | Some (xs, r) \<Rightarrow> Some (JArr xs, r))
      else if c = CHR ''{'' then
        (if take 1 cs = ''}'' then Some (JObj [], drop 1 cs)
         else case parse_members n cs of
                None \<Rightarrow> None
              | Some (ps, r) \<Rightarrow> Some (JObj (foldl (\<lambda>qs (k, x). obj_set k x qs) [] ps), r))
      else if c = CHR ''-'' then
        (case number cs of None \<Rightarrow> None | Some (m, r) \<Rightarrow> Some (JNum (- of_int m), r))
      else case number (c # cs) of None \<Rightarrow> None | Some (m, r) \<Rightarrow> Some (JNum (of_int m), r))"
| "parse_elements 0 s = None"
| "parse_elements (Suc n) s =
     (case parse_value n s of
        None \<Rightarrow> None
      | Some (x, r) \<Rightarrow>
          (if take 1 r = '']'' then Some ([x], drop 1 r)
           else if take 1 r = '','' then
             (case parse_elements n (drop 1 r) of
                None \<Rightarrow> None
              | Some (xs, r') \<Rightarrow> Some (x # xs, r'))
           else None))"
| "parse_members 0 s = None"
| "parse_members (Suc n) s =
     (if take 1 s \<noteq> [CHR 0x22] then None
      else case string_body (drop 1 s) of
             None \<Rightarrow> None
           | Some (k, r) \<Rightarrow>
               (if take 1 r \<noteq> '':'' then None
                else case parse_value n (drop 1 r) of
                       None \<Rightarrow> None
                     | Some (x, r') \<Rightarrow>
                         (if take 1 r' = ''}'' then Some ([(k, x)], drop 1 r')
                          else if take 1 r' = '','' then
                            (case parse_members n (drop 1 r') of
                               None \<Rightarrow> None
                             | Some (ps, r'') \<Rightarrow> Some ((k, x) # ps, r''))
                          else None)))"

definition sample_parse :: "string \<Rightarrow> jsval option" where
  "sample_parse t =
     (case parse_value (Suc (length t)) t of
        None \<Rightarrow> None
      | Some (v, r) \<Rightarrow> if r = [] then Some v else None)"

definition Object_prototype :: "string list" where
  "Object_prototype =
     [''constructor'', ''__proto__'', ''hasOwnProperty'', ''isPrototypeOf'',
      ''propertyIsEnumerable'', ''toLocaleString'', ''toString'', ''valueOf'',
      ''__defineGetter__'', ''__defineSetter__'', ''__lookupGetter__'', ''__lookupSetter__'']"

definition sample_proto :: "jsval \<Rightarrow> string \<Rightarrow> jsval option" where
  "sample_proto v k = (if k \<in> set Object_prototype then Some (JHost k) else None)"

fun sample_ToNumber :: "jsval \<Rightarrow> rat option" where
  "sample_ToNumber (JNum q) = Some q"
| "sample_ToNumber (JBool b) = Some (if b then 1 else 0)"
| "sample_ToNumber JNull = Some 0"
| "sample_ToNumber v = None"

definition sample_host :: host where
  "sample_host =
     \<lparr>JSON_parse = sample_parse, JSON_stringify = sample_stringify,
      proto = sample_proto, ToNumber = sample_ToNumber\<rparr>"

text \<open>The window with nothing stored.\<close>

definition empty_window :: window where
  "empty_window = \<lparr>localStorage = Map.empty, sessionStorage = Map.empty\<rparr>"

text \<open>The window after the first call of the package's usage notes,
  \<^verbatim>\<open>set({type: 'local', name: 'userData', value: {userId: 123, name: 'John Doe'}})\<close>.\<close>

definition user_window :: window where
  "user_window =
     setItem local ''userData''
       (stringify sample_host (JObj [(''userId'', JNum 123), (''name'', JStr ''John Doe'')]))
       empty_window"

section \<open>Values the codec carries unchanged, and primitive Records\<close>

text \<open>
  A value is serializable on a host when \<^verbatim>\<open>JSON.stringify\<close> gives a text for it, which
  is not empty, and \<^verbatim>\<open>JSON.parse\<close> of that text gives the value back.
\<close>

definition roundtrips :: "host \<Rightarrow> jsval \<Rightarrow> bool" where
  "roundtrips h v =
     (case JSON_stringify h v of
        None \<Rightarrow> False
      | Some t \<Rightarrow> t \<noteq> [] \<and> JSON_parse h t = Some v)"

text \<open>The values that are no objects: numbers, strings, booleans and \<^verbatim>\<open>null\<close>.\<close>

fun primitive :: "jsval \<Rightarrow> bool" where
  "primitive JNull = True"
| "primitive (JBool b) = True"
| "primitive (JNum q) = True"
| "primitive (JStr s) = True"
| "primitive v = False"

section \<open>Parameter checks, storage areas, fields\<close>

lemma truthy_type_val: "truthy (type_val t) \<longleftrightarrow> t \<noteq> None"
  by (cases t rule: type_val.cases) simp_all

lemma truthy_str_val: "truthy (str_val n) \<longleftrightarrow> (\<exists>s. n = Some s \<and> s \<noteq> [])"
  by (cases n) simp_all

lemma ensureParams_type_name:
  "ensureParams [''type'', ''name''] \<lparr>type = t, name = n, item = None, value = JUndefined\<rparr> =
     (if t = None then Inl (Error (missing_prefix @ ''type''))
      else if \<not> truthy (str_val n) then Inl (Error (missing_prefix @ ''name''))
      else Inr ())"
  by (simp add: props_at_def truthy_type_val)

lemma ensureParams_type_name_value:
  "ensureParams [''type'', ''name'', ''value''] \<lparr>type = t, name = n, item = None, value = v\<rparr> =
     (if t = None then Inl (Error (missing_prefix @ ''type''))
      else if \<not> truthy (str_val n) then Inl (Error (missing_prefix @ ''name''))
      else if \<not> truthy v then Inl (Error (missing_prefix @ ''value''))
      else Inr ())"
  by (simp add: props_at_def truthy_type_val)

lemma ensureParams_type:
  "ensureParams [''type''] \<lparr>type = t, name = None, item = None, value = JUndefined\<rparr> =
     (if t = None then Inl (Error (missing_prefix @ ''type'')) else Inr ())"
  by (simp add: props_at_def truthy_type_val)

lemma storage_of_put:
  "storage_of (put_storage st s w) st' = (if st' = st then s else storage_of w st')"
  by (cases st; cases st') simp_all

lemma put_storage_twice: "put_storage st s (put_storage st s' w) = put_storage st s w"
  by (cases st) simp_all

lemma put_storage_same: "put_storage st (storage_of w st) w = w"
  by (cases st) simp_all

lemma getItem_setItem:
  "getItem (setItem st n t w) st' n' = (if st' = st \<and> n' = n then Some t else getItem w st' n')"
  by (simp add: getItem_def setItem_def storage_of_put)

lemma getItem_removeItem:
  "getItem (removeItem st n w) st' n' = (if st' = st \<and> n' = n then None else getItem w st' n')"
  by (simp add: getItem_def removeItem_def storage_of_put)

lemma setItem_twice: "setItem st n t (setItem st n t' w) = setItem st n t w"
  by (simp add: setItem_def storage_of_put put_storage_twice)

lemma removeItem_absent: "getItem w st n = None \<Longrightarrow> removeItem st n w = w"
  by (simp add: getItem_def removeItem_def put_storage_same fun_upd_idem)

lemma get_supplied:
  "n \<noteq> [] \<Longrightarrow>
   get h \<lparr>type = Some st, name = Some n, item = i, value = v\<rparr> w =
     (case parse h (or_default (getItem w st n)) of
        Inl e \<Rightarrow> (Inl e, w)
      | Inr storedData \<Rightarrow>
          (if truthy (str_val i) then (get_prop h storedData (to_key i), w)
           else (Inr storedData, w)))"
  by (simp add: get_def props_at_def truthy_type_val split: sum.splits)

lemma set_supplied:
  "n \<noteq> [] \<Longrightarrow> truthy v \<Longrightarrow>
   set' h \<lparr>type = Some st, name = Some n, item = i, value = v\<rparr> w =
     (case parse h (or_default (getItem w st n)) of
        Inl e \<Rightarrow> (Inl e, w)
      | Inr storedData \<Rightarrow>
          (case (if truthy (str_val i) then set_prop h storedData (to_key i) v else Inr v) of
             Inl e \<Rightarrow> (Inl e, w)
           | Inr storedData' \<Rightarrow> (Inr (), setItem st n (stringify h storedData') w)))"
  by (simp add: set'_def props_at_def truthy_type_val split: sum.splits)

lemma remove_supplied:
  "n \<noteq> [] \<Longrightarrow>
   remove h \<lparr>type = Some st, name = Some n, item = i, value = v\<rparr> w =
     (if truthy (str_val i) then
        (case parse h (or_default (getItem w st n)) of
           Inl e \<Rightarrow> (Inl e, w)
         | Inr storedData \<Rightarrow>
             (case delete_prop storedData (to_key i) of
                Inl e \<Rightarrow> (Inl e, w)
              | Inr storedData' \<Rightarrow> (Inr (), setItem st n (stringify h storedData') w)))
      else (Inr (), removeItem st n w))"
  by (simp add: remove_def props_at_def truthy_type_val split: sum.splits)




lemma delete_absent: "map_of ps k = None \<Longrightarrow> AList.delete k ps = ps"
  by (simp add: map_of_eq_None_iff)

lemma delete_prop_absent:
  "own_prop r k = None \<Longrightarrow> r \<noteq> JNull \<Longrightarrow> r \<noteq> JUndefined \<Longrightarrow> delete_prop r k = Inr r"
  by (cases r) (auto simp: delete_absent split: option.splits if_splits)

lemma roundtrips_text: "roundtrips h v \<Longrightarrow> stringify h v \<noteq> []"
  by (simp add: roundtrips_def stringify_def split: option.splits)

lemma roundtrips_back: "roundtrips h v \<Longrightarrow> parse h (stringify h v) = Inr v"
  by (simp add: roundtrips_def stringify_def parse_def split: option.splits)

lemma parse_Some: "JSON_parse h t = Some r \<Longrightarrow> parse h t = Inr r"
  by (simp add: parse_def)

lemma get_prop_own: "own_prop r k = Some x \<Longrightarrow> get_prop h r k = Inr x"
  by (cases r) (auto simp: get_prop_def)

lemma get_prop_absent:
  "own_prop r k = None \<Longrightarrow> r \<noteq> JNull \<Longrightarrow> r \<noteq> JUndefined \<Longrightarrow>
   get_prop h r k = Inr (case proto h r k of None \<Rightarrow> JUndefined | Some x \<Rightarrow> x)"
  by (simp add: get_prop_def split: option.splits)

lemma set_prop_primitive:
  "primitive r \<Longrightarrow> i \<noteq> ''__proto__'' \<Longrightarrow> set_prop h r i V = Inl TypeError"
  by (cases r) simp_all

lemma get_empty_item: "get h (props\<lparr>item := Some []\<rparr>) w = get h (props\<lparr>item := None\<rparr>) w"
  by (simp add: get_def cong: sum.case_cong option.case_cong)

lemma set_empty_item: "set' h (props\<lparr>item := Some []\<rparr>) w = set' h (props\<lparr>item := None\<rparr>) w"
  by (simp add: set'_def cong: sum.case_cong option.case_cong)

lemma remove_empty_item:
  "remove h (props\<lparr>item := Some []\<rparr>) w = remove h (props\<lparr>item := None\<rparr>) w"
  by (simp add: remove_def cong: sum.case_cong option.case_cong)

text \<open>
  The round trip that \<open>set\<close> and \<open>get\<close> do make: a truthy, serializable value written
  with no \<open>item\<close> under a non-empty name, over an entry that is absent or well-formed,
  is what \<open>get\<close> returns next.
\<close>

lemma set_then_get_truthy:
  assumes "n \<noteq> []" and "truthy V" and "roundtrips h V"
    and "JSON_parse h (or_default (getItem w st n)) = Some r"
  shows "set' h \<lparr>type = Some st, name = Some n, item = None, value = V\<rparr> w =
           (Inr (), setItem st n (stringify h V) w)
         \<and> fst (get h \<lparr>type = Some st, name = Some n, item = None, value = x\<rparr>
                  (setItem st n (stringify h V) w)) = Inr V"
  using assms
  by (simp add: set_supplied get_supplied parse_Some getItem_setItem roundtrips_text roundtrips_back)

text \<open>Whatever a mutating method of a bound accessor returns, it is \<^verbatim>\<open>undefined\<close>.\<close>

lemma chain_mutators_return_module_this:
  "(fst (chain_set h c i v w) = Inr r \<longrightarrow> r = Undefined)
   \<and> (fst (chain_remove h c i w) = Inr r \<longrightarrow> r = Undefined)
   \<and> (fst (chain_clear c w) = Inr r \<longrightarrow> r = Undefined)"
  by (auto simp: chain_set_def chain_remove_def chain_clear_def module_this_def
      split: option.splits sum.splits)

section \<open>Writing a whole Record and reading it back\<close>

text \<open>
  C1.  \<open>get\<close> right after \<open>set\<close> with no \<open>item\<close> should return the value written, for
  every JSON value, primitives included.  The number \<open>0\<close> is serializable, yet
  \<open>set\<close> rejects it: \<open>ensureParams\<close> tests \<^verbatim>\<open>!props[param]\<close>, so a falsy value counts
  as a missing one.  Nothing is stored, and \<open>get\<close> returns the empty mapping, not \<open>0\<close>.
\<close>

theorem set_rejects_falsy_value:
  "roundtrips sample_host (JNum 0)
   \<and> fst (set' sample_host \<lparr>type = Some local, name = Some ''x'', item = None, value = JNum 0\<rparr>
        empty_window) = Inl (Error (missing_prefix @ ''value''))
   \<and> fst (get sample_host \<lparr>type = Some local, name = Some ''x'', item = None, value = JUndefined\<rparr>
        (snd (set' sample_host \<lparr>type = Some local, name = Some ''x'', item = None, value = JNum 0\<rparr>
           empty_window))) = Inr (JObj [])"
  by code_simp

section \<open>Writing one field\<close>




section \<open>What the chained methods return\<close>

text \<open>
  C3.  Each mutating method of a bound accessor should return that accessor.  On the
  chain of the usage notes, \<^verbatim>\<open>chain({type: 'local', name: 'userData'}).set('userId', 456)\<close>
  returns \<^verbatim>\<open>undefined\<close>, so the next call, \<^verbatim>\<open>.set('name', 'Jane Doe')\<close>, throws a
  TypeError; \<^verbatim>\<open>remove\<close> and \<^verbatim>\<open>clear\<close> return \<^verbatim>\<open>undefined\<close> as well.
\<close>

theorem chained_call_fails:
  "fst (call_set sample_host
          (Accessor (chain \<lparr>type = Some local, name = Some ''userData'', item = None, value = JUndefined\<rparr>))
          (Some ''userId'') (JNum 456) empty_window) = Inr Undefined
   \<and> fst (call_set sample_host Undefined (Some ''name'') (JStr ''Jane Doe'')
        (snd (call_set sample_host
          (Accessor (chain \<lparr>type = Some local, name = Some ''userData'', item = None, value = JUndefined\<rparr>))
          (Some ''userId'') (JNum 456) empty_window))) = Inl TypeError
   \<and> fst (call_remove sample_host
          (Accessor (chain \<lparr>type = Some local, name = Some ''userData'', item = None, value = JUndefined\<rparr>))
          (Some ''name'') user_window) = Inr Undefined
   \<and> fst (call_clear
          (Accessor (chain \<lparr>type = Some local, name = Some ''userData'', item = None, value = JUndefined\<rparr>))
          user_window) = Inr Undefined"
  by code_simp

section \<open>Missing parameters\<close>

text \<open>
  C4.  A request that lacks a required field fails with the error whose message is
  the prefix followed by the name of the first missing field: \<open>type\<close> for the four
  operations, then \<open>name\<close> for \<open>get\<close>, \<open>set\<close> and \<open>remove\<close> (\<open>clear\<close> requires \<open>type\<close>
  alone), then \<open>value\<close> for \<open>set\<close>, where a falsy name or value counts as missing.
  The outcome is the same for every window and every host, so nothing was read, and
  the window is returned as it was, so nothing was written.
\<close>

theorem missing_parameter_fails_fast:
  "(type props = None \<longrightarrow>
      get h props w = (Inl (Error (missing_prefix @ ''type'')), w)
      \<and> set' h props w = (Inl (Error (missing_prefix @ ''type'')), w)
      \<and> remove h props w = (Inl (Error (missing_prefix @ ''type'')), w)
      \<and> clear props w = (Inl (Error (missing_prefix @ ''type'')), w))
   \<and> (type props \<noteq> None \<and> \<not> truthy (str_val (name props)) \<longrightarrow>
      get h props w = (Inl (Error (missing_prefix @ ''name'')), w)
      \<and> set' h props w = (Inl (Error (missing_prefix @ ''name'')), w)
      \<and> remove h props w = (Inl (Error (missing_prefix @ ''name'')), w))
   \<and> (type props \<noteq> None \<and> truthy (str_val (name props)) \<and> \<not> truthy (value props) \<longrightarrow>
      set' h props w = (Inl (Error (missing_prefix @ ''value'')), w))"
  by (simp add: get_def set'_def remove_def clear_def ensureParams_type_name
      ensureParams_type_name_value ensureParams_type del: ensureParams.simps)

text \<open>No \<open>type\<close> for \<open>clear\<close>, an empty \<open>name\<close> for \<open>get\<close>, no \<open>value\<close> for \<open>set\<close>.\<close>

theorem missing_parameter_fails_fast_witness:
  "clear \<lparr>type = None, name = Some ''x'', item = None, value = JNum 1\<rparr> user_window =
     (Inl (Error (missing_prefix @ ''type'')), user_window)
   \<and> get sample_host \<lparr>type = Some local, name = Some [], item = None, value = JNum 1\<rparr>
        user_window = (Inl (Error (missing_prefix @ ''name'')), user_window)
   \<and> set' sample_host \<lparr>type = Some local, name = Some ''x'', item = None, value = JUndefined\<rparr>
        user_window = (Inl (Error (missing_prefix @ ''value'')), user_window)"
  using missing_parameter_fails_fast
          [of "\<lparr>type = None, name = Some ''x'', item = None, value = JNum 1\<rparr>"
              sample_host user_window]
        missing_parameter_fails_fast
          [of "\<lparr>type = Some local, name = Some [], item = None, value = JNum 1\<rparr>"
              sample_host user_window]
        missing_parameter_fails_fast
          [of "\<lparr>type = Some local, name = Some ''x'', item = None, value = JUndefined\<rparr>"
              sample_host user_window]
  by simp

section \<open>Reading and removing what is not there\<close>

text \<open>
  C5, as the code has it.  Let the name be non-empty and the item non-empty, let the
  entry be absent or well-formed and decode to a value other than \<^verbatim>\<open>null\<close>, and let
  the item be no own property of that Record.  Then \<open>get\<close> and \<open>remove\<close> raise no
  error.  \<open>get\<close> of the item returns \<^verbatim>\<open>undefined\<close>, unless the prototype chain of the
  Record holds something under that key; \<open>get\<close> with no item returns the Record, the
  empty mapping when nothing is stored.  \<open>remove\<close> of the item deletes nothing and
  stores the encoding of the Record under the name; when the Record is serializable,
  that is when the codec carries it unchanged, \<open>get\<close> returns the same Record
  afterwards, and only then is the removal a no-op on the content of the Record.
  \<open>remove\<close> with no item leaves a window without the entry as it is.
\<close>

theorem get_remove_absent_field:
  assumes "n \<noteq> []" and "i \<noteq> []"
    and "JSON_parse h (or_default (getItem w st n)) = Some r"
    and "r \<noteq> JNull" and "r \<noteq> JUndefined"
    and "own_prop r i = None"
  shows "get h \<lparr>type = Some st, name = Some n, item = Some i, value = v\<rparr> w =
           (Inr (case proto h r i of None \<Rightarrow> JUndefined | Some x \<Rightarrow> x), w)
         \<and> get h \<lparr>type = Some st, name = Some n, item = None, value = v\<rparr> w = (Inr r, w)
         \<and> remove h \<lparr>type = Some st, name = Some n, item = Some i, value = v\<rparr> w =
             (Inr (), setItem st n (stringify h r) w)
         \<and> getItem (setItem st n (stringify h r) w) st n = Some (stringify h r)
         \<and> (roundtrips h r \<longrightarrow>
              get h \<lparr>type = Some st, name = Some n, item = None, value = v\<rparr>
                (setItem st n (stringify h r) w) = (Inr r, setItem st n (stringify h r) w))
         \<and> (getItem w st n = None \<longrightarrow>
              remove h \<lparr>type = Some st, name = Some n, item = None, value = v\<rparr> w = (Inr (), w))"
  using assms
  by (simp add: get_supplied remove_supplied parse_Some get_prop_absent delete_prop_absent
      getItem_setItem roundtrips_text roundtrips_back removeItem_absent)

text \<open>On the window of the usage notes, for the field \<^verbatim>\<open>age\<close>, which the Record lacks;
  and on the empty window, where \<open>get\<close> returns the empty mapping.\<close>

theorem get_remove_absent_field_witness:
  "JSON_parse sample_host (or_default (getItem user_window local ''userData'')) =
     Some (JObj [(''userId'', JNum 123), (''name'', JStr ''John Doe'')])
   \<and> own_prop (JObj [(''userId'', JNum 123), (''name'', JStr ''John Doe'')]) ''age'' = None
   \<and> get sample_host \<lparr>type = Some local, name = Some ''userData'', item = Some ''age'', value = JUndefined\<rparr>
        user_window = (Inr JUndefined, user_window)
   \<and> fst (remove sample_host \<lparr>type = Some local, name = Some ''userData'', item = Some ''age'', value = JUndefined\<rparr>
        user_window) = Inr ()
   \<and> roundtrips sample_host (JObj [(''userId'', JNum 123), (''name'', JStr ''John Doe'')])
   \<and> fst (get sample_host \<lparr>type = Some local, name = Some ''userData'', item = None, value = JUndefined\<rparr>
        (snd (remove sample_host
                \<lparr>type = Some local, name = Some ''userData'', item = Some ''age'', value = JUndefined\<rparr>
                user_window))) = Inr (JObj [(''userId'', JNum 123), (''name'', JStr ''John Doe'')])
   \<and> get sample_host \<lparr>type = Some session, name = Some ''userData'', item = None, value = JUndefined\<rparr>
        empty_window = (Inr (JObj []), empty_window)
   \<and> remove sample_host \<lparr>type = Some session, name = Some ''userData'', item = None, value = JUndefined\<rparr>
        empty_window = (Inr (), empty_window)"
proof -
  let ?r = "JObj [(''userId'', JNum 123), (''name'', JStr ''John Doe'')]"
  have stored: "JSON_parse sample_host (or_default (getItem user_window local ''userData'')) = Some ?r"
    by code_simp
  have absent: "own_prop ?r ''age'' = None" by simp
  have inherited: "proto sample_host ?r ''age'' = None" by code_simp
  have rt: "roundtrips sample_host ?r" by code_simp
  have n: "''userData'' \<noteq> []" and i: "''age'' \<noteq> []" and r: "?r \<noteq> JNull" "?r \<noteq> JUndefined"
    by simp_all
  have unset: "JSON_parse sample_host (or_default (getItem empty_window session ''userData'')) =
      Some (JObj [])"
    by code_simp
  have no_entry: "getItem empty_window session ''userData'' = None" by code_simp
  have e: "JObj [] \<noteq> JNull" "JObj [] \<noteq> JUndefined" "own_prop (JObj []) ''age'' = None"
    by simp_all
  from get_remove_absent_field [OF n i stored r absent, of JUndefined]
    get_remove_absent_field [OF n i unset e, of JUndefined]
  show ?thesis using stored absent inherited rt no_entry by simp
qed

text \<open>
  The claim as stated fails on the well-formed text \<^verbatim>\<open>null\<close>: the Record has no
  field \<^verbatim>\<open>a\<close>, and both \<open>get\<close> and \<open>remove\<close> of that item throw a TypeError.
\<close>

theorem get_remove_absent_field_counterexample:
  "JSON_parse sample_host (or_default (getItem (setItem local ''x'' ''null'' empty_window) local ''x''))
     = Some JNull
   \<and> own_prop JNull ''a'' = None
   \<and> fst (get sample_host \<lparr>type = Some local, name = Some ''x'', item = Some ''a'', value = JUndefined\<rparr>
        (setItem local ''x'' ''null'' empty_window)) = Inl TypeError
   \<and> fst (remove sample_host \<lparr>type = Some local, name = Some ''x'', item = Some ''a'', value = JUndefined\<rparr>
        (setItem local ''x'' ''null'' empty_window)) = Inl TypeError"
  by code_simp

section \<open>Removing a field twice\<close>

text \<open>
  C6, as the code has it.  Let the name be non-empty and the item non-empty, let the
  entry be absent or decode to a plain object, the object without the field being
  serializable.  Then \<open>remove\<close> of the item succeeds, a second \<open>remove\<close> succeeds and
  leaves the window as the first left it, \<open>get\<close> of the item then returns
  \<^verbatim>\<open>undefined\<close>, unless the prototype chain of the Record holds something under that
  key, and \<open>get\<close> of any other field of the Record returns what it returned before.
\<close>

theorem remove_item_twice:
  assumes "n \<noteq> []" and "i \<noteq> []"
    and "JSON_parse h (or_default (getItem w st n)) = Some (JObj ps)"
    and "roundtrips h (JObj (AList.delete i ps))"
  shows "remove h \<lparr>type = Some st, name = Some n, item = Some i, value = v\<rparr> w =
           (Inr (), setItem st n (stringify h (JObj (AList.delete i ps))) w)
         \<and> remove h \<lparr>type = Some st, name = Some n, item = Some i, value = v\<rparr>
             (setItem st n (stringify h (JObj (AList.delete i ps))) w) =
           (Inr (), setItem st n (stringify h (JObj (AList.delete i ps))) w)
         \<and> fst (get h \<lparr>type = Some st, name = Some n, item = Some i, value = v\<rparr>
                  (setItem st n (stringify h (JObj (AList.delete i ps))) w)) =
           Inr (case proto h (JObj (AList.delete i ps)) i of None \<Rightarrow> JUndefined | Some x \<Rightarrow> x)
         \<and> (\<forall>j. j \<noteq> i \<and> j \<noteq> [] \<and> map_of ps j \<noteq> None \<longrightarrow>
               fst (get h \<lparr>type = Some st, name = Some n, item = Some j, value = v\<rparr>
                      (setItem st n (stringify h (JObj (AList.delete i ps))) w)) =
               fst (get h \<lparr>type = Some st, name = Some n, item = Some j, value = v\<rparr> w))"
proof -
  let ?r = "JObj (AList.delete i ps)"
  let ?w = "setItem st n (stringify h ?r) w"
  let ?p = "\<lparr>type = Some st, name = Some n, item = Some i, value = v\<rparr>"
  have once: "remove h ?p w = (Inr (), ?w)"
    using assms by (simp add: remove_supplied parse_Some)
  have reread: "parse h (or_default (getItem ?w st n)) = Inr ?r"
    using assms(4) by (simp add: getItem_setItem roundtrips_text roundtrips_back)
  have twice: "remove h ?p ?w = (Inr (), ?w)"
    using assms(1,2) reread by (simp add: remove_supplied delete_idem setItem_twice)
  have gone: "own_prop ?r i = None" by (simp add: delete_conv')
  have after: "fst (get h ?p ?w) =
                 Inr (case proto h ?r i of None \<Rightarrow> JUndefined | Some x \<Rightarrow> x)"
    using assms(1,2) reread gone by (simp add: get_supplied get_prop_absent)
  have others: "fst (get h \<lparr>type = Some st, name = Some n, item = Some j, value = v\<rparr> ?w) =
                fst (get h \<lparr>type = Some st, name = Some n, item = Some j, value = v\<rparr> w)"
    if "j \<noteq> i" "j \<noteq> []" "map_of ps j \<noteq> None" for j
  proof -
    from that(3) obtain y where y: "map_of ps j = Some y" by auto
    have "own_prop ?r j = Some y" using y that(1) by (simp add: delete_conv')
    moreover have "own_prop (JObj ps) j = Some y" using y by simp
    ultimately show ?thesis
      using assms(1,3) that(2) reread by (simp add: get_supplied get_prop_own parse_Some)
  qed
  from once twice after others show ?thesis by blast
qed

text \<open>On the window of the usage notes: \<^verbatim>\<open>name\<close> is removed twice, and \<^verbatim>\<open>userId\<close>
  reads as before.\<close>

theorem remove_item_twice_witness:
  "JSON_parse sample_host (or_default (getItem user_window local ''userData'')) =
     Some (JObj [(''userId'', JNum 123), (''name'', JStr ''John Doe'')])
   \<and> roundtrips sample_host
        (JObj (AList.delete ''name'' [(''userId'', JNum 123), (''name'', JStr ''John Doe'')]))
   \<and> remove sample_host \<lparr>type = Some local, name = Some ''userData'', item = Some ''name'', value = JUndefined\<rparr>
        (setItem local ''userData''
           (stringify sample_host
              (JObj (AList.delete ''name'' [(''userId'', JNum 123), (''name'', JStr ''John Doe'')])))
           user_window) =
      (Inr (), setItem local ''userData''
           (stringify sample_host
              (JObj (AList.delete ''name'' [(''userId'', JNum 123), (''name'', JStr ''John Doe'')])))
           user_window)
   \<and> fst (get sample_host \<lparr>type = Some local, name = Some ''userData'', item = Some ''userId'', value = JUndefined\<rparr>
        (setItem local ''userData''
           (stringify sample_host
              (JObj (AList.delete ''name'' [(''userId'', JNum 123), (''name'', JStr ''John Doe'')])))
           user_window)) =
      fst (get sample_host \<lparr>type = Some local, name = Some ''userData'', item = Some ''userId'', value = JUndefined\<rparr>
        user_window)"
proof -
  let ?ps = "[(''userId'', JNum 123), (''name'', JStr ''John Doe'')]"
  have stored: "JSON_parse sample_host (or_default (getItem user_window local ''userData'')) =
      Some (JObj ?ps)"
    by code_simp
  have rt: "roundtrips sample_host (JObj (AList.delete ''name'' ?ps))"
    by code_simp
  have n: "''userData'' \<noteq> []" and i: "''name'' \<noteq> []"
    by simp_all
  have j: "''userId'' \<noteq> ''name'' \<and> ''userId'' \<noteq> [] \<and> map_of ?ps ''userId'' \<noteq> None"
    by simp
  note fact = remove_item_twice [OF n i stored rt, of JUndefined]
  note twice = fact [THEN conjunct2, THEN conjunct1]
  note other = fact [THEN conjunct2, THEN conjunct2, THEN conjunct2, THEN spec, of "''userId''",
      THEN mp, OF j]
  show ?thesis by (intro conjI stored rt twice other)
qed

text \<open>
  The claim as stated fails on a Record that is an array: after \<^verbatim>\<open>set\<close> of the value
  \<^verbatim>\<open>[1,2]\<close>, \<open>remove\<close> of the item \<^verbatim>\<open>0\<close> succeeds and leaves a hole, which is written
  as \<^verbatim>\<open>null\<close>; \<open>get\<close> of the item \<^verbatim>\<open>0\<close> then returns \<^verbatim>\<open>null\<close>, not \<^verbatim>\<open>undefined\<close>.
\<close>

theorem remove_item_twice_counterexample:
  "fst (set' sample_host \<lparr>type = Some local, name = Some ''x'', item = None,
                          value = JArr [JNum 1, JNum 2]\<rparr> empty_window) = Inr ()
   \<and> fst (remove sample_host \<lparr>type = Some local, name = Some ''x'', item = Some ''0'', value = JUndefined\<rparr>
        (snd (set' sample_host \<lparr>type = Some local, name = Some ''x'', item = None,
                                value = JArr [JNum 1, JNum 2]\<rparr> empty_window))) = Inr ()
   \<and> fst (get sample_host \<lparr>type = Some local, name = Some ''x'', item = Some ''0'', value = JUndefined\<rparr>
        (snd (remove sample_host \<lparr>type = Some local, name = Some ''x'', item = Some ''0'', value = JUndefined\<rparr>
          (snd (set' sample_host \<lparr>type = Some local, name = Some ''x'', item = None,
                                  value = JArr [JNum 1, JNum 2]\<rparr> empty_window))))) = Inr JNull
   \<and> JNull \<noteq> JUndefined"
  by code_simp

section \<open>Clearing a storage area\<close>

text \<open>
  C7.  \<open>clear\<close> on a storage area succeeds; after it, \<open>get\<close> with no item returns the
  empty mapping for every name that can have been set (a non-empty one) in that
  area, and the other area holds what it held.  The host is one whose
  \<^verbatim>\<open>JSON.parse\<close> reads the default text \<^verbatim>\<open>{}\<close> as the empty mapping.
\<close>

theorem clear_empties_one_namespace:
  assumes "JSON_parse h ''{}'' = Some (JObj [])"
  shows "clear \<lparr>type = Some st, name = n0, item = i0, value = v0\<rparr> w = (Inr (), Storage_clear st w)
         \<and> (\<forall>n v. n \<noteq> [] \<longrightarrow>
               get h \<lparr>type = Some st, name = Some n, item = None, value = v\<rparr> (Storage_clear st w) =
                 (Inr (JObj []), Storage_clear st w))
         \<and> (\<forall>st'. st' \<noteq> st \<longrightarrow> storage_of (Storage_clear st w) st' = storage_of w st')"
  using assms
  by (simp add: clear_def ensureParams_type get_supplied parse_Some getItem_def Storage_clear_def
      storage_of_put del: ensureParams.simps)

theorem clear_empties_one_namespace_witness:
  "JSON_parse sample_host ''{}'' = Some (JObj [])
   \<and> clear \<lparr>type = Some local, name = None, item = None, value = JUndefined\<rparr>
        (setItem session ''b'' ''2'' user_window) =
      (Inr (), Storage_clear local (setItem session ''b'' ''2'' user_window))
   \<and> get sample_host \<lparr>type = Some local, name = Some ''userData'', item = None, value = JUndefined\<rparr>
        (Storage_clear local (setItem session ''b'' ''2'' user_window)) =
      (Inr (JObj []), Storage_clear local (setItem session ''b'' ''2'' user_window))
   \<and> storage_of (Storage_clear local (setItem session ''b'' ''2'' user_window)) session =
      storage_of (setItem session ''b'' ''2'' user_window) session"
proof -
  have p: "JSON_parse sample_host ''{}'' = Some (JObj [])" by code_simp
  have n: "''userData'' \<noteq> []" and s: "session \<noteq> local" by simp_all
  note fact = clear_empties_one_namespace [OF p, of local None None JUndefined
      "setItem session ''b'' ''2'' user_window"]
  note cleared = fact [THEN conjunct1]
  note read = fact [THEN conjunct2, THEN conjunct1, THEN spec, THEN spec, THEN mp, OF n,
      of JUndefined]
  note other = fact [THEN conjunct2, THEN conjunct2, THEN spec, THEN mp, OF s]
  show ?thesis by (intro conjI p cleared read other)
qed

section \<open>An empty item\<close>

text \<open>
  C8.  With the empty string as \<open>item\<close>, \<open>get\<close>, \<open>set\<close> and \<open>remove\<close> do exactly what
  they do with no \<open>item\<close>: \<open>get\<close> returns the whole decoded Record; \<open>set\<close> replaces the
  Record by the value, the text stored under the name being the encoding of the
  value afterwards; \<open>remove\<close> deletes the stored entry, so that nothing is stored
  under the name afterwards while every other entry of either storage area is as it
  was.  No field named by the empty string is read, assigned or deleted.
\<close>

theorem empty_item_as_omitted:
  "get h (props\<lparr>item := Some []\<rparr>) w = get h (props\<lparr>item := None\<rparr>) w
   \<and> set' h (props\<lparr>item := Some []\<rparr>) w = set' h (props\<lparr>item := None\<rparr>) w
   \<and> remove h (props\<lparr>item := Some []\<rparr>) w = remove h (props\<lparr>item := None\<rparr>) w
   \<and> (n \<noteq> [] \<and> JSON_parse h (or_default (getItem w st n)) = Some r \<longrightarrow>
        get h \<lparr>type = Some st, name = Some n, item = Some [], value = v\<rparr> w = (Inr r, w)
        \<and> (truthy v \<longrightarrow>
             set' h \<lparr>type = Some st, name = Some n, item = Some [], value = v\<rparr> w =
               (Inr (), setItem st n (stringify h v) w)
             \<and> getItem (setItem st n (stringify h v) w) st n = Some (stringify h v)))
   \<and> (n \<noteq> [] \<longrightarrow>
        remove h \<lparr>type = Some st, name = Some n, item = Some [], value = v\<rparr> w =
          (Inr (), removeItem st n w)
        \<and> getItem (removeItem st n w) st n = None
        \<and> (\<forall>st' n'. (st', n') \<noteq> (st, n) \<longrightarrow>
               getItem (removeItem st n w) st' n' = getItem w st' n'))"
  by (simp add: get_empty_item set_empty_item remove_empty_item
      get_supplied set_supplied remove_supplied parse_Some getItem_setItem getItem_removeItem)

theorem empty_item_as_omitted_witness:
  "JSON_parse sample_host (or_default (getItem user_window local ''userData'')) =
     Some (JObj [(''userId'', JNum 123), (''name'', JStr ''John Doe'')])
   \<and> get sample_host \<lparr>type = Some local, name = Some ''userData'', item = Some [], value = JNum 5\<rparr>
         user_window = (Inr (JObj [(''userId'', JNum 123), (''name'', JStr ''John Doe'')]), user_window)
   \<and> set' sample_host \<lparr>type = Some local, name = Some ''userData'', item = Some [], value = JNum 5\<rparr>
         user_window = (Inr (), setItem local ''userData'' (stringify sample_host (JNum 5)) user_window)
   \<and> getItem (setItem local ''userData'' (stringify sample_host (JNum 5)) user_window)
         local ''userData'' = Some (stringify sample_host (JNum 5))
   \<and> remove sample_host \<lparr>type = Some local, name = Some ''userData'', item = Some [], value = JNum 5\<rparr>
         user_window = (Inr (), removeItem local ''userData'' user_window)
   \<and> getItem user_window local ''userData'' \<noteq> None
   \<and> getItem (removeItem local ''userData'' user_window) local ''userData'' = None"
proof -
  have present: "getItem user_window local ''userData'' \<noteq> None" by code_simp
  have stored: "JSON_parse sample_host (or_default (getItem user_window local ''userData'')) =
      Some (JObj [(''userId'', JNum 123), (''name'', JStr ''John Doe'')])"
    by code_simp
  show ?thesis
    using stored present
      empty_item_as_omitted [of sample_host _ user_window "''userData''" local
        "JObj [(''userId'', JNum 123), (''name'', JStr ''John Doe'')]" "JNum 5"]
    by simp
qed

section \<open>Removing a field of a name with no entry\<close>

text \<open>
  C9.  For a non-empty name with no stored entry, \<open>remove\<close> with a non-empty item
  writes the text \<^verbatim>\<open>{}\<close> under that name: the entry was absent and is present
  afterwards, while \<open>get\<close> with no item returns the empty mapping before and after.
  The host is one whose codec reads \<^verbatim>\<open>{}\<close> as the empty mapping and writes the
  empty mapping as \<^verbatim>\<open>{}\<close>.
\<close>

theorem remove_item_of_absent_name_writes_braces:
  assumes "n \<noteq> []" and "i \<noteq> []" and "getItem w st n = None"
    and "JSON_parse h ''{}'' = Some (JObj [])"
    and "JSON_stringify h (JObj []) = Some ''{}''"
  shows "remove h \<lparr>type = Some st, name = Some n, item = Some i, value = v\<rparr> w =
           (Inr (), setItem st n ''{}'' w)
         \<and> getItem (setItem st n ''{}'' w) st n = Some ''{}''
         \<and> get h \<lparr>type = Some st, name = Some n, item = None, value = v\<rparr> w = (Inr (JObj []), w)
         \<and> get h \<lparr>type = Some st, name = Some n, item = None, value = v\<rparr> (setItem st n ''{}'' w) =
             (Inr (JObj []), setItem st n ''{}'' w)"
  using assms
  by (simp add: remove_supplied get_supplied parse_Some getItem_setItem stringify_def)

theorem remove_item_of_absent_name_writes_braces_witness:
  "getItem user_window session ''cart'' = None
   \<and> JSON_parse sample_host ''{}'' = Some (JObj [])
   \<and> JSON_stringify sample_host (JObj []) = Some ''{}''
   \<and> remove sample_host \<lparr>type = Some session, name = Some ''cart'', item = Some ''total'', value = JUndefined\<rparr>
        user_window = (Inr (), setItem session ''cart'' ''{}'' user_window)
   \<and> getItem (setItem session ''cart'' ''{}'' user_window) session ''cart'' = Some ''{}''"
proof -
  have absent: "getItem user_window session ''cart'' = None" by code_simp
  have p: "JSON_parse sample_host ''{}'' = Some (JObj [])" by code_simp
  have s: "JSON_stringify sample_host (JObj []) = Some ''{}''" by code_simp
  have n: "''cart'' \<noteq> []" and i: "''total'' \<noteq> []" by simp_all
  note fact = remove_item_of_absent_name_writes_braces [OF n i absent p s, of JUndefined]
  show ?thesis
    by (intro conjI absent p s fact [THEN conjunct1] fact [THEN conjunct2, THEN conjunct1])
qed

section \<open>Assigning a field of a primitive Record\<close>

text \<open>
  C10, as the code has it.  Let the name be non-empty and its stored text decode to
  a primitive (a number, a string, a boolean or \<^verbatim>\<open>null\<close>), the item be non-empty and
  other than \<^verbatim>\<open>__proto__\<close>, the value truthy.  Then \<open>set\<close> throws a TypeError and
  writes nothing: the window is as it was, and the Record read from it is that
  primitive still.  The assignment is not dropped in silence and nothing is encoded.
\<close>

theorem set_item_on_primitive:
  assumes "n \<noteq> []" and "i \<noteq> []" and "i \<noteq> ''__proto__''" and "truthy V"
    and "JSON_parse h (or_default (getItem w st n)) = Some r"
    and "primitive r"
  shows "set' h \<lparr>type = Some st, name = Some n, item = Some i, value = V\<rparr> w = (Inl TypeError, w)
         \<and> get h \<lparr>type = Some st, name = Some n, item = None, value = x\<rparr> w = (Inr r, w)"
  using assms by (simp add: set_supplied get_supplied parse_Some set_prop_primitive)

theorem set_item_on_primitive_witness:
  "JSON_parse sample_host (or_default (getItem (setItem local ''x'' ''5'' empty_window) local ''x''))
     = Some (JNum 5)
   \<and> primitive (JNum 5) \<and> truthy (JNum 1)
   \<and> set' sample_host \<lparr>type = Some local, name = Some ''x'', item = Some ''a'', value = JNum 1\<rparr>
        (setItem local ''x'' ''5'' empty_window) = (Inl TypeError, setItem local ''x'' ''5'' empty_window)
   \<and> get sample_host \<lparr>type = Some local, name = Some ''x'', item = None, value = JUndefined\<rparr>
        (setItem local ''x'' ''5'' empty_window) = (Inr (JNum 5), setItem local ''x'' ''5'' empty_window)"
proof -
  have stored: "JSON_parse sample_host
      (or_default (getItem (setItem local ''x'' ''5'' empty_window) local ''x'')) = Some (JNum 5)"
    by code_simp
  have n: "''x'' \<noteq> []" and i: "''a'' \<noteq> []" and np: "''a'' \<noteq> ''__proto__''"
    and t: "truthy (JNum 1)" and p: "primitive (JNum 5)"
    by simp_all
  note fact = set_item_on_primitive [OF n i np t stored p, of JUndefined]
  show ?thesis by (intro conjI stored p t fact [THEN conjunct1] fact [THEN conjunct2])
qed

text \<open>
  The claim as stated fails on the stored text \<^verbatim>\<open>5\<close>: \<open>set\<close> of the item \<^verbatim>\<open>a\<close> does
  not return, it throws a TypeError.
\<close>

theorem set_item_on_primitive_counterexample:
  "JSON_parse sample_host (or_default (getItem (setItem local ''x'' ''5'' empty_window) local ''x''))
     = Some (JNum 5)
   \<and> fst (set' sample_host \<lparr>type = Some local, name = Some ''x'', item = Some ''a'', value = JNum 1\<rparr>
        (setItem local ''x'' ''5'' empty_window)) = Inl TypeError"
  by code_simp

end
